theory Spec2Isabelle
  imports Main
begin

section \<open>JavaScript values\<close>

text \<open>
  The route handlers inspect values of type \<open>unknown\<close> (caught exceptions, provider
  responses) by their shape. A value is therefore a small JSON-like datatype; an
  \<open>Error\<close> instance carries its message and whatever further own properties the
  thrower attached (\<open>response\<close>, \<open>error\<close>, \<open>details\<close>, ...).
  Strings are byte strings; numbers are integers.
\<close>

datatype jsval =
    JUndefined
  | JNull
  | JBool bool
  | JNum int
  | JStr string
  | JObj "(string \<times> jsval) list"
  | JError string "(string \<times> jsval) list"

text \<open>\<open>new Error(msg)\<close>\<close>

definition new_Error :: "string \<Rightarrow> jsval" where
  "new_Error msg = JError msg []"

text \<open>\<open>e instanceof Error\<close>\<close>

fun instanceof_Error :: "jsval \<Rightarrow> bool" where
  "instanceof_Error (JError m ps) = True"
| "instanceof_Error v = False"

text \<open>\<open>typeof v === 'object' && v !== null\<close>\<close>

fun is_object :: "jsval \<Rightarrow> bool" where
  "is_object (JObj ps) = True"
| "is_object (JError m ps) = True"
| "is_object v = False"

text \<open>\<open>typeof v === 'string'\<close>\<close>

fun is_string :: "jsval \<Rightarrow> bool" where
  "is_string (JStr s) = True"
| "is_string v = False"

text \<open>
  \<open>k in v\<close> for an object \<open>v\<close> (the handlers only apply it after the object test),
  for the keys the handlers probe; an \<open>Error\<close> always has \<open>message\<close>.
\<close>

fun has_prop :: "string \<Rightarrow> jsval \<Rightarrow> bool" where
  "has_prop k (JObj ps) = (map_of ps k \<noteq> None)"
| "has_prop k (JError m ps) = (k = ''message'' \<or> map_of ps k \<noteq> None)"
| "has_prop k v = False"

text \<open>
  \<open>v.k\<close> for a value that is neither \<open>null\<close> nor \<open>undefined\<close>: a missing
  property, and any property of a primitive, reads as \<open>undefined\<close>.
\<close>

fun get_prop :: "string \<Rightarrow> jsval \<Rightarrow> jsval" where
  "get_prop k (JObj ps) = (case map_of ps k of Some v \<Rightarrow> v | None \<Rightarrow> JUndefined)"
| "get_prop k (JError m ps) =
     (if k = ''message'' then JStr m
      else case map_of ps k of Some v \<Rightarrow> v | None \<Rightarrow> JUndefined)"
| "get_prop k v = JUndefined"

text \<open>Truthiness of an optional string: \<open>undefined\<close> and \<open>''\<close> are falsy.\<close>

fun truthy_str :: "string option \<Rightarrow> bool" where
  "truthy_str None = False"
| "truthy_str (Some s) = (s \<noteq> [])"

section \<open>Library functions of the platform\<close>

text \<open>
  \<open>String.prototype.toLowerCase\<close> on the ASCII letters (no other character lowers to
  a letter that occurs in a supported format name).
\<close>

definition lower_char :: "char \<Rightarrow> char" where
  "lower_char c =
     (case map_of (zip ''ABCDEFGHIJKLMNOPQRSTUVWXYZ'' ''abcdefghijklmnopqrstuvwxyz'') c of
        Some l \<Rightarrow> l
      | None \<Rightarrow> c)"

definition toLowerCase :: "string \<Rightarrow> string" where
  "toLowerCase s = map lower_char s"

text \<open>
  Node's \<open>path\<close> module, POSIX flavour. \<open>path.join\<close> concatenates the non-empty
  arguments with \<open>/\<close> and normalises the result: empty and \<open>.\<close> segments vanish, a
  \<open>..\<close> segment removes the segment before it (at the root of an absolute path it is
  dropped, at the start of a relative path it is kept).
\<close>

fun split_slash :: "string \<Rightarrow> string list" where
  "split_slash [] = [[]]"
| "split_slash (c # cs) =
     (if c = CHR ''/'' then [] # split_slash cs
      else (case split_slash cs of
              [] \<Rightarrow> [[c]]
            | seg # segs \<Rightarrow> (c # seg) # segs))"

fun join_slash :: "string list \<Rightarrow> string" where
  "join_slash [] = []"
| "join_slash [seg] = seg"
| "join_slash (seg # segs) = seg @ ''/'' @ join_slash segs"

text \<open>
  \<open>normalizeString\<close>: the segments kept so far, last one first, in \<open>acc\<close>;
  \<open>up\<close> is \<open>allowAboveRoot\<close>.
\<close>

fun normalize_segments :: "bool \<Rightarrow> string list \<Rightarrow> string list \<Rightarrow> string list" where
  "normalize_segments up acc [] = rev acc"
| "normalize_segments up acc (seg # segs) =
     (if seg = [] \<or> seg = ''.'' then normalize_segments up acc segs
      else if seg = ''..'' then
        (case acc of
           [] \<Rightarrow> normalize_segments up (if up then [''..''] else []) segs
         | prv # rest \<Rightarrow>
             if prv = ''..'' then normalize_segments up (if up then seg # acc else acc) segs
             else normalize_segments up rest segs)
      else normalize_segments up (seg # acc) segs)"

definition path_normalize :: "string \<Rightarrow> string" where
  "path_normalize p =
     (if p = [] then ''.''
      else
        let isAbsolute = (hd p = CHR ''/'');
            trailingSeparator = (last p = CHR ''/'');
            q = join_slash (normalize_segments (\<not> isAbsolute) [] (split_slash p))
        in if q = [] then (if isAbsolute then ''/'' else if trailingSeparator then ''./'' else ''.'')
           else (if isAbsolute then ''/'' else []) @ q @ (if trailingSeparator then ''/'' else []))"

definition path_join :: "string list \<Rightarrow> string" where
  "path_join args =
     (case filter (\<lambda>a. a \<noteq> []) args of
        [] \<Rightarrow> ''.''
      | parts \<Rightarrow> path_normalize (join_slash parts))"

text \<open>
  \<open>path.parse(p).name\<close>: the last path component (trailing separators ignored) without
  its extension; the extension starts at the last dot, unless that dot opens the
  component or the component is \<open>..\<close>.
\<close>

definition path_basename :: "string \<Rightarrow> string" where
  "path_basename p =
     rev (takeWhile (\<lambda>c. c \<noteq> CHR ''/'') (dropWhile (\<lambda>c. c = CHR ''/'') (rev p)))"

definition path_parse_name :: "string \<Rightarrow> string" where
  "path_parse_name p =
     (let base = path_basename p;
          ext = takeWhile (\<lambda>c. c \<noteq> CHR ''.'') (rev base);
          stem = take (length base - length ext - 1) base
      in if CHR ''.'' \<notin> set base \<or> stem = [] \<or> base = ''..'' then base else stem)"

text \<open>A path lies inside a directory when it continues the directory's path after a \<open>/\<close>.\<close>

definition inside_dir :: "string \<Rightarrow> string \<Rightarrow> bool" where
  "inside_dir dir p = (length dir < length p \<and> take (Suc (length dir)) p = dir @ ''/'')"

section \<open>Data exchanged with the collaborators\<close>

type_synonym bytes = "nat list"

text \<open>A \<open>File\<close> of the multipart form.\<close>

record upload =
  file_name :: string
  file_bytes :: bytes

text \<open>\<open>ytdl-core\<close>: a video format and the metadata \<open>getInfo\<close> resolves.\<close>

record videoFormat =
  fmt_url :: "string option"
  fmt_container :: "string option"
  hasAudio :: bool
  hasVideo :: bool

record videoInfo =
  title :: string
  formats :: "videoFormat list"

text \<open>The \<open>filter\<close> option of \<open>ytdl.chooseFormat\<close>: a named filter or a predicate.\<close>

datatype formatFilter = FilterName string | FilterFn "videoFormat \<Rightarrow> bool"

text \<open>How piping the download stream into the file ends.\<close>

datatype streamOutcome = StreamEnd | StreamError string | WriteError string

text \<open>
  \<open>cloudconvert\<close>: jobs and tasks. \<open>job_message\<close> is the job's \<open>message\<close>
  property, \<open>JUndefined\<close> when the job has none.
\<close>

record resultFile =
  rf_filename :: "string option"
  rf_url :: "string option"

record taskResult =
  files :: "resultFile list option"

record task =
  task_id :: "string option"
  task_name :: string
  task_status :: string
  task_message :: "string option"
  task_result :: "taskResult option"

record job =
  job_id :: "string option"
  job_status :: string
  job_tasks :: "task list option"
  job_message :: jsval

text \<open>The response of \<open>fetch\<close>.\<close>

record fetchResponse =
  ok :: bool
  has_body :: bool
  statusText :: string
  content :: bytes

text \<open>
  Everything the handlers obtain from outside: environment variables, the file system's
  and the providers' answers. A sum \<open>jsval + 'a\<close> is a call that throws (\<open>Inl\<close>)
  or returns; \<open>jsval option\<close> is a call that returns nothing and may throw.
\<close>

record world =
  env_OPENAI_API_KEY :: "string option"
  env_CLOUDCONVERT_API_KEY :: "string option"
  os_tmpdir :: string
  unique_suffix :: "nat \<Rightarrow> string"
  mkdtemp_outcome :: "string \<Rightarrow> jsval + string"
  writeFile_outcome :: "string \<Rightarrow> jsval option"
  rm_outcome :: "string \<Rightarrow> jsval option"
  access_outcome :: "string \<Rightarrow> jsval option"
  ffmpeg_outcome :: "string \<Rightarrow> string option"
  ytdl_validateURL :: "string \<Rightarrow> bool"
  ytdl_getInfo :: "string \<Rightarrow> jsval + videoInfo"
  ytdl_chooseFormat :: "videoFormat list \<Rightarrow> string \<Rightarrow> formatFilter \<Rightarrow> jsval + videoFormat option"
  ytdl_stream :: "string \<Rightarrow> videoFormat \<Rightarrow> streamOutcome"
  whisper_create :: "string \<Rightarrow> jsval + jsval"
  cc_jobs_create :: "string \<Rightarrow> jsval + job option"
  cc_tasks_upload :: "task \<Rightarrow> string \<Rightarrow> string \<Rightarrow> jsval option"
  cc_jobs_wait :: "string \<Rightarrow> jsval + job"
  fetch_outcome :: "string \<Rightarrow> jsval + fetchResponse"
  headers_set_outcome :: "string \<Rightarrow> string \<Rightarrow> jsval option"

section \<open>Effects\<close>

text \<open>
  What a handler does to the outside is recorded: the paths that exist in the file
  system and the sequence of calls made. Console output is not modelled.
\<close>

datatype event =
    Mkdtemp string
  | WriteFile string
  | Rm string
  | Access string
  | Ffmpeg string string
  | GetInfo string
  | Download string string
  | WhisperCreate string
  | JobsCreate string
  | TasksUpload string string
  | JobsWait string
  | Fetch string

record sys =
  fs_paths :: "string list"
  trace :: "event list"

text \<open>Calls that go over the network, and removals.\<close>

fun is_network :: "event \<Rightarrow> bool" where
  "is_network (GetInfo u) = True"
| "is_network (Download u p) = True"
| "is_network (WhisperCreate p) = True"
| "is_network (JobsCreate f) = True"
| "is_network (TasksUpload t n) = True"
| "is_network (JobsWait j) = True"
| "is_network (Fetch u) = True"
| "is_network e = False"

fun is_rm :: "event \<Rightarrow> bool" where
  "is_rm (Rm p) = True"
| "is_rm e = False"

text \<open>
  An asynchronous function is a state transformer that ends by throwing a value
  (\<open>Inl\<close>) or returning one (\<open>Inr\<close>).
\<close>

type_synonym 'a io = "sys \<Rightarrow> (jsval + 'a) \<times> sys"

definition io_return :: "'a \<Rightarrow> 'a io" where
  "io_return x = (\<lambda>s. (Inr x, s))"

definition io_throw :: "jsval \<Rightarrow> 'a io" where
  "io_throw e = (\<lambda>s. (Inl e, s))"

definition io_bind :: "'a io \<Rightarrow> ('a \<Rightarrow> 'b io) \<Rightarrow> 'b io" where
  "io_bind m f = (\<lambda>s. case m s of (Inl e, s') \<Rightarrow> (Inl e, s') | (Inr x, s') \<Rightarrow> f x s')"

text \<open>\<open>try { m } catch (e) { h e }\<close>\<close>

definition io_catch :: "'a io \<Rightarrow> (jsval \<Rightarrow> 'a io) \<Rightarrow> 'a io" where
  "io_catch m h = (\<lambda>s. case m s of (Inl e, s') \<Rightarrow> h e s' | (Inr x, s') \<Rightarrow> (Inr x, s'))"

text \<open>
  \<open>try { m } finally { c }\<close>: \<open>c\<close> runs after \<open>m\<close> however \<open>m\<close> ended; the
  outcome is that of \<open>m\<close> unless \<open>c\<close> throws.
\<close>

definition io_finally :: "'a io \<Rightarrow> unit io \<Rightarrow> 'a io" where
  "io_finally m c =
     (\<lambda>s. case m s of (r, s') \<Rightarrow> (case c s' of (Inl e, s'') \<Rightarrow> (Inl e, s'') | (Inr u, s'') \<Rightarrow> (r, s'')))"

definition io_of :: "jsval + 'a \<Rightarrow> 'a io" where
  "io_of r = (\<lambda>s. (r, s))"

definition emit :: "event \<Rightarrow> unit io" where
  "emit ev = (\<lambda>s. (Inr (), s\<lparr>trace := trace s @ [ev]\<rparr>))"

definition create_path :: "string \<Rightarrow> unit io" where
  "create_path p = (\<lambda>s. (Inr (), s\<lparr>fs_paths := p # fs_paths s\<rparr>))"

text \<open>Recursive removal: the path and everything below it.\<close>

definition remove_tree :: "string \<Rightarrow> unit io" where
  "remove_tree p =
     (\<lambda>s. (Inr (), s\<lparr>fs_paths := filter (\<lambda>q. q \<noteq> p \<and> \<not> inside_dir p q) (fs_paths s)\<rparr>))"

text \<open>\<open>Date.now() + "_" + Math.random().toString(36).substring(2, 8)\<close>\<close>

definition uniqueSuffix :: "world \<Rightarrow> string io" where
  "uniqueSuffix w = (\<lambda>s. (Inr (unique_suffix w (length (trace s))), s))"

text \<open>
  A computation that only adds calls to the trace, none of them a removal.
\<close>

definition no_removal :: "'a io \<Rightarrow> bool" where
  "no_removal m \<longleftrightarrow>
     (\<forall>s. \<exists>evs. trace (snd (m s)) = trace s @ evs \<and> list_all (\<lambda>e. \<not> is_rm e) evs)"

subsection \<open>File system calls\<close>

text \<open>\<open>fs.mkdtemp(prefix)\<close>: creates the directory \<open>prefix\<close> plus random characters.\<close>

definition fs_mkdtemp :: "world \<Rightarrow> string \<Rightarrow> string io" where
  "fs_mkdtemp w prefix =
     (case mkdtemp_outcome w prefix of
        Inl e \<Rightarrow> io_throw e
      | Inr rnd \<Rightarrow>
          io_bind (emit (Mkdtemp (prefix @ rnd))) (\<lambda>_.
          io_bind (create_path (prefix @ rnd)) (\<lambda>_.
          io_return (prefix @ rnd))))"

definition fs_writeFile :: "world \<Rightarrow> string \<Rightarrow> unit io" where
  "fs_writeFile w p =
     io_bind (emit (WriteFile p)) (\<lambda>_.
       case writeFile_outcome w p of
         Some e \<Rightarrow> io_throw e
       | None \<Rightarrow> create_path p)"

text \<open>\<open>fs.rm(p, { recursive: true, force: true })\<close>\<close>

definition fs_rm :: "world \<Rightarrow> string \<Rightarrow> unit io" where
  "fs_rm w p =
     io_bind (emit (Rm p)) (\<lambda>_.
       case rm_outcome w p of
         Some e \<Rightarrow> io_throw e
       | None \<Rightarrow> remove_tree p)"

definition fs_access :: "world \<Rightarrow> string \<Rightarrow> unit io" where
  "fs_access w p =
     io_bind (emit (Access p)) (\<lambda>_.
       case access_outcome w p of
         Some e \<Rightarrow> io_throw e
       | None \<Rightarrow> io_return ())"

subsection \<open>HTTP responses\<close>

datatype body = JsonBody jsval | RawBody bytes

record response =
  status :: nat
  headers :: "(string \<times> string) list"
  body :: body

text \<open>\<open>NextResponse.json(v, { status })\<close>; \<open>body\<close> holds the value handed over.\<close>

definition json_response :: "nat \<Rightarrow> jsval \<Rightarrow> response" where
  "json_response st v = \<lparr>status = st, headers = [], body = JsonBody v\<rparr>"

text \<open>The \<open>error\<close> and \<open>details\<close> fields of a JSON response.\<close>

fun body_field :: "string \<Rightarrow> body \<Rightarrow> jsval" where
  "body_field k (JsonBody v) = get_prop k v"
| "body_field k (RawBody b) = JUndefined"

section \<open>The transcription route (\<open>app/api/transcribe-video/route.ts\<close>)\<close>

text \<open>The later revision of the route, the one with the shape-probing catch block.\<close>

fun error_message :: "jsval \<Rightarrow> string" where
  "error_message (JError m ps) = m"
| "error_message v = []"

fun string_of :: "jsval \<Rightarrow> string" where
  "string_of (JStr s) = s"
| "string_of v = []"

text \<open>\<open>a || b\<close> on strings\<close>

fun str_or :: "string option \<Rightarrow> string \<Rightarrow> string" where
  "str_or None d = d"
| "str_or (Some s) d = (if s = [] then d else s)"

subsection \<open>\<open>extractAudio\<close>\<close>

definition extractAudio :: "world \<Rightarrow> string \<Rightarrow> string \<Rightarrow> string io" where
  "extractAudio w videoPath outputDir =
     io_bind (uniqueSuffix w) (\<lambda>suffix.
       let audioFileName = path_parse_name videoPath @ ''_'' @ suffix @ ''_audio.mp3'';
           audioOutputPath = path_join [outputDir, audioFileName]
       in io_bind (emit (Ffmpeg videoPath audioOutputPath)) (\<lambda>_.
            case ffmpeg_outcome w videoPath of
              Some msg \<Rightarrow> io_throw (new_Error (''Failed to extract audio: '' @ msg))
            | None \<Rightarrow> io_bind (create_path audioOutputPath) (\<lambda>_. io_return audioOutputPath)))"

subsection \<open>\<open>transcribeWithWhisper\<close>\<close>

text \<open>
  The normalisation of the provider's response (the body of the \<open>try\<close> after the
  call). Reading \<open>.text\<close> of \<open>null\<close> or \<open>undefined\<close> throws a \<open>TypeError\<close>.
\<close>

definition unrecognized_response :: string where
  "unrecognized_response =
     ''Could not extract text from Whisper API response: 'text' field missing, not a string, or structure unexpected.''"

definition whisper_text :: "jsval \<Rightarrow> jsval + string" where
  "whisper_text transcription =
     (if transcription = JNull then
        Inl (new_Error ''Cannot read properties of null (reading 'text')'')
      else if transcription = JUndefined then
        Inl (new_Error ''Cannot read properties of undefined (reading 'text')'')
      else
        (case get_prop ''text'' transcription of
           JStr text \<Rightarrow> Inr text
         | _ \<Rightarrow>
            (case (if is_object transcription then
                     (if has_prop ''text'' transcription
                           \<and> is_string (get_prop ''text'' transcription)
                      then Some (string_of (get_prop ''text'' transcription))
                      else if has_prop ''data'' transcription then
                        (let dataProp = get_prop ''data'' transcription
                         in if is_object dataProp \<and> has_prop ''text'' dataProp
                                 \<and> is_string (get_prop ''text'' dataProp)
                            then Some (string_of (get_prop ''text'' dataProp))
                            else None)
                      else None)
                   else None) of
               Some extractedText \<Rightarrow> Inr extractedText
             | None \<Rightarrow> Inl (new_Error unrecognized_response))))"

definition whisper_catch :: "jsval \<Rightarrow> jsval" where
  "whisper_catch error =
     new_Error (''Whisper API transcription failed: ''
       @ (if instanceof_Error error then error_message error else ''Unknown Whisper API error''))"

definition whisper_transcribe :: "world \<Rightarrow> string \<Rightarrow> jsval io" where
  "whisper_transcribe w audioPath =
     io_bind (emit (WhisperCreate audioPath)) (\<lambda>_. io_of (whisper_create w audioPath))"

definition transcribeWithWhisper :: "world \<Rightarrow> string \<Rightarrow> string io" where
  "transcribeWithWhisper w audioPath =
     (if \<not> truthy_str (env_OPENAI_API_KEY w) then
        io_throw (new_Error ''OpenAI API key is not configured. Cannot transcribe.'')
      else
        io_catch
          (io_bind (fs_access w audioPath) (\<lambda>_.
           io_bind (whisper_transcribe w audioPath) (\<lambda>transcription.
           io_of (whisper_text transcription))))
          (\<lambda>error. io_throw (whisper_catch error)))"

text \<open>
  The normalisation as the specification words it: the expected \<open>text\<close> field, then
  (a) a top-level \<open>text\<close> string, then (b) a \<open>text\<close> string under \<open>data\<close>, else
  an error that the response shape was not recognised.
\<close>

definition spec_transcript :: "jsval \<Rightarrow> jsval + string" where
  "spec_transcript r =
     (case get_prop ''text'' r of
        JStr t \<Rightarrow> Inr t
      | _ \<Rightarrow>
        (case get_prop ''text'' r of
           JStr t \<Rightarrow> Inr t
         | _ \<Rightarrow>
           (case get_prop ''text'' (get_prop ''data'' r) of
              JStr t \<Rightarrow> Inr t
            | _ \<Rightarrow> Inl (new_Error unrecognized_response))))"

subsection \<open>\<open>downloadYouTubeVideoAndExtractAudio\<close>\<close>

text \<open>\<open>!format || !format.url\<close>\<close>

fun no_usable_format :: "videoFormat option \<Rightarrow> bool" where
  "no_usable_format None = True"
| "no_usable_format (Some f) = (\<not> truthy_str (fmt_url f))"

text \<open>
  Format selection: \<open>ytdl.chooseFormat\<close> is asked for the best audio-only format,
  then, if that gave nothing with a URL, for the best format that has audio. An
  exception of \<open>chooseFormat\<close> propagates; the library throws
  \<open>No such format found\<close> when no format with a URL passes the filter.
\<close>

definition select_format :: "world \<Rightarrow> videoFormat list \<Rightarrow> jsval + videoFormat" where
  "select_format w fs =
     (case ytdl_chooseFormat w fs ''highestaudio'' (FilterName ''audioonly'') of
        Inl e \<Rightarrow> Inl e
      | Inr format \<Rightarrow>
          if no_usable_format format then
            (case ytdl_chooseFormat w fs ''highest'' (FilterFn hasAudio) of
               Inl e \<Rightarrow> Inl e
             | Inr format' \<Rightarrow>
                 if no_usable_format format' then
                   Inl (new_Error ''Could not find a suitable video/audio format to download from YouTube.'')
                 else Inr (the format'))
          else Inr (the format))"

text \<open>
  The title without the characters that are unsafe in file names (angle brackets, colon,
  double quote, slash, backslash, bar, question mark, asterisk), cut to 100.
\<close>

definition sanitize_title :: "string \<Rightarrow> string" where
  "sanitize_title t =
     take 100 (filter (\<lambda>c. c \<notin> set (''<>:/|?*'' @ [CHR 0x22, CHR 0x5C])) t)"

definition is_space :: "char \<Rightarrow> bool" where
  "is_space c = (c \<in> set [CHR '' '', CHR 0x09, CHR 0x0A, CHR 0x0B, CHR 0x0C, CHR 0x0D])"

definition underscore_spaces :: "string \<Rightarrow> string" where
  "underscore_spaces t = map (\<lambda>c. if is_space c then CHR ''_'' else c) t"

text \<open>Piping the download stream of the chosen format into a file of the workspace.\<close>

definition stream_to_file :: "world \<Rightarrow> string \<Rightarrow> videoFormat \<Rightarrow> string \<Rightarrow> unit io" where
  "stream_to_file w videoUrl format p =
     io_bind (emit (Download (str_or (fmt_url format) []) p)) (\<lambda>_.
     io_bind (create_path p) (\<lambda>_.
       case ytdl_stream w videoUrl format of
         StreamEnd \<Rightarrow> io_return ()
       | StreamError msg \<Rightarrow> io_throw (new_Error (''Failed to download YouTube content: '' @ msg))
       | WriteError msg \<Rightarrow> io_throw (new_Error (''Failed to write YouTube content to disk: '' @ msg))))"

definition get_info :: "world \<Rightarrow> string \<Rightarrow> videoInfo io" where
  "get_info w videoUrl = io_bind (emit (GetInfo videoUrl)) (\<lambda>_. io_of (ytdl_getInfo w videoUrl))"

text \<open>The part of the function after a format has been chosen.\<close>

definition download_and_extract ::
  "world \<Rightarrow> string \<Rightarrow> string \<Rightarrow> string \<Rightarrow> videoFormat \<Rightarrow> (string \<times> string) io" where
  "download_and_extract w videoUrl outputDir videoTitle format =
     io_bind (uniqueSuffix w) (\<lambda>suffix.
       let tempDownloadedVideoName =
             ''youtube_'' @ underscore_spaces videoTitle @ ''_'' @ suffix @ ''.''
               @ str_or (fmt_container format) ''mp4'';
           tempDownloadedVideoPath = path_join [outputDir, tempDownloadedVideoName]
       in io_bind (stream_to_file w videoUrl format tempDownloadedVideoPath) (\<lambda>_.
          io_bind (extractAudio w tempDownloadedVideoPath outputDir) (\<lambda>audioFilePath.
          io_return (audioFilePath, videoTitle))))"

definition downloadYouTubeVideoAndExtractAudio ::
  "world \<Rightarrow> string \<Rightarrow> string \<Rightarrow> (string \<times> string) io" where
  "downloadYouTubeVideoAndExtractAudio w videoUrl outputDir =
     (if \<not> ytdl_validateURL w videoUrl then io_throw (new_Error ''Invalid YouTube URL'')
      else
        io_bind (get_info w videoUrl) (\<lambda>info.
          case select_format w (formats info) of
            Inl e \<Rightarrow> io_throw e
          | Inr format \<Rightarrow>
              download_and_extract w videoUrl outputDir (sanitize_title (title info)) format))"

subsection \<open>\<open>POST\<close>\<close>

record transcribeForm =
  form_operationType :: "string option"
  form_video :: "upload option"
  form_videoUrl :: "string option"

text \<open>A request: \<open>req.formData()\<close> rejects (\<open>Inl\<close>) or yields the form.\<close>

type_synonym transcribeRequest = "jsval + transcribeForm"

fun opt_str :: "string option \<Rightarrow> jsval" where
  "opt_str None = JUndefined"
| "opt_str (Some s) = JStr s"

text \<open>From the check of \<open>audioToTranscribePath\<close> to the success response.\<close>

definition transcribe_audio ::
  "world \<Rightarrow> string \<Rightarrow> string option \<Rightarrow> string option \<Rightarrow> response io" where
  "transcribe_audio w audioToTranscribePath videoTitleFromUrl originalFileNameForDisplay =
     (if audioToTranscribePath = [] then
        io_throw (new_Error ''No audio data could be prepared for transcription.'')
      else
        io_bind (transcribeWithWhisper w audioToTranscribePath) (\<lambda>transcriptionText.
        io_return (json_response 200 (JObj
          [(''transcription'', JStr transcriptionText),
           (''videoTitle'', opt_str videoTitleFromUrl),
           (''originalFileName'', opt_str originalFileNameForDisplay)]))))"

text \<open>The body of the \<open>try\<close> block.\<close>

definition transcribe_try :: "world \<Rightarrow> transcribeRequest \<Rightarrow> string \<Rightarrow> response io" where
  "transcribe_try w req tempSessionDir =
     io_bind (io_of req) (\<lambda>formData.
       if form_operationType formData = Some ''file'' then
         (case form_video formData of
            None \<Rightarrow>
              io_return (json_response 400 (JObj
                [(''error'', JStr ''No video file provided for upload.'')]))
          | Some videoFile \<Rightarrow>
              let tempUploadedVideoPath = path_join [tempSessionDir, file_name videoFile]
              in io_bind (fs_writeFile w tempUploadedVideoPath) (\<lambda>_.
                 io_bind (extractAudio w tempUploadedVideoPath tempSessionDir) (\<lambda>audio.
                 transcribe_audio w audio None (Some (file_name videoFile)))))
       else if form_operationType formData = Some ''url'' then
         (if \<not> truthy_str (form_videoUrl formData) then
            io_return (json_response 400 (JObj [(''error'', JStr ''No video URL provided.'')]))
          else
            io_bind (downloadYouTubeVideoAndExtractAudio w (str_or (form_videoUrl formData) [])
                       tempSessionDir) (\<lambda>(audio, videoTitle).
            transcribe_audio w audio (Some videoTitle) (Some videoTitle)))
       else
         io_return (json_response 400 (JObj
           [(''error'', JStr
              (''Invalid operation type. Ensure '' @ [CHR 0x22] @ ''operationType'' @ [CHR 0x22]
                @ '' is sent correctly from the client.''))])))"

text \<open>The \<open>catch\<close> block: the caught value becomes a 500 response.\<close>

definition transcribe_details :: "jsval \<Rightarrow> jsval" where
  "transcribe_details error =
     (if is_object error then
        (if has_prop ''response'' error then
           (let errResponse = get_prop ''response'' error
            in if is_object errResponse \<and> has_prop ''data'' errResponse
               then get_prop ''data'' errResponse
               else errResponse)
         else if has_prop ''error'' error then get_prop ''error'' error
         else if instanceof_Error error then JNull
         else error)
      else JNull)"

definition transcribe_catch :: "jsval \<Rightarrow> response" where
  "transcribe_catch error =
     json_response 500 (JObj
       [(''error'', JStr (if instanceof_Error error then error_message error
                          else ''An unknown error occurred during transcription processing.'')),
        (''details'', transcribe_details error)])"

text \<open>The \<open>finally\<close> block: one removal of the workspace, its failure swallowed.\<close>

definition transcribe_cleanup :: "world \<Rightarrow> string \<Rightarrow> unit io" where
  "transcribe_cleanup w tempSessionDir =
     (if tempSessionDir \<noteq> [] then
        io_catch (fs_rm w tempSessionDir) (\<lambda>cleanupError. io_return ())
      else io_return ())"

definition transcribe_POST :: "world \<Rightarrow> transcribeRequest \<Rightarrow> response io" where
  "transcribe_POST w req =
     io_bind (fs_mkdtemp w (path_join [os_tmpdir w, ''transcribe-session-''])) (\<lambda>tempSessionDir.
       io_finally
         (io_catch (transcribe_try w req tempSessionDir)
            (\<lambda>error. io_return (transcribe_catch error)))
         (transcribe_cleanup w tempSessionDir))"

section \<open>The document conversion route (\<open>app/api/convert-document/route.ts\<close>)\<close>

text \<open>
  The complete revision of the route (the one that declares the format tables). The
  partial revision kept beside it has the same \<open>POST\<close> and the same steps in
  \<open>performCloudConversion\<close>; it reads the job-level message without the string test,
  words the last fallback \<open>Unknown error\<close>, and tests the file list of the export
  task for presence instead of with \<open>Array.isArray\<close>.
\<close>

definition EXT_TO_MIMETYPE :: "(string \<times> string) list" where
  "EXT_TO_MIMETYPE =
     [(''pdf'', ''application/pdf''),
      (''docx'', ''application/vnd.openxmlformats-officedocument.wordprocessingml.document''),
      (''txt'', ''text/plain''),
      (''html'', ''text/html''),
      (''odt'', ''application/vnd.oasis.opendocument.text''),
      (''pptx'', ''application/vnd.openxmlformats-officedocument.presentationml.presentation''),
      (''jpg'', ''image/jpeg''),
      (''png'', ''image/png'')]"

definition SUPPORTED_DOC_OUTPUT_FORMATS_API :: "string list" where
  "SUPPORTED_DOC_OUTPUT_FORMATS_API =
     [''pdf'', ''docx'', ''txt'', ''html'', ''odt'', ''pptx'', ''jpg'', ''png'']"

subsection \<open>\<open>performCloudConversion\<close>\<close>

text \<open>\<open>tasks?.find(p)\<close>\<close>

fun find_task :: "(task \<Rightarrow> bool) \<Rightarrow> task list option \<Rightarrow> task option" where
  "find_task p None = None"
| "find_task p (Some ts) = List.find p ts"

definition jobs_create :: "world \<Rightarrow> string \<Rightarrow> job option io" where
  "jobs_create w output_format =
     io_bind (emit (JobsCreate output_format)) (\<lambda>_. io_of (cc_jobs_create w output_format))"

definition tasks_upload :: "world \<Rightarrow> task \<Rightarrow> string \<Rightarrow> string \<Rightarrow> unit io" where
  "tasks_upload w t p name =
     io_bind (emit (TasksUpload p name)) (\<lambda>_.
       case cc_tasks_upload w t p name of
         Some e \<Rightarrow> io_throw e
       | None \<Rightarrow> io_return ())"

definition jobs_wait :: "world \<Rightarrow> string \<Rightarrow> job io" where
  "jobs_wait w jid = io_bind (emit (JobsWait jid)) (\<lambda>_. io_of (cc_jobs_wait w jid))"

definition fetch :: "world \<Rightarrow> string \<Rightarrow> fetchResponse io" where
  "fetch w url = io_bind (emit (Fetch url)) (\<lambda>_. io_of (fetch_outcome w url))"

text \<open>
  Job creation and upload: from \<open>jobs.create\<close> to the removal of the upload
  directory. Returns the id of the job.
\<close>

definition cc_submit :: "world \<Rightarrow> upload \<Rightarrow> string \<Rightarrow> string io" where
  "cc_submit w inputFile targetFormat =
     io_bind (jobs_create w (toLowerCase targetFormat)) (\<lambda>created.
       case created of
         None \<Rightarrow> io_throw (new_Error ''CloudConvert job creation failed or job has no ID.'')
       | Some job \<Rightarrow>
           if \<not> truthy_str (job_id job) then
             io_throw (new_Error ''CloudConvert job creation failed or job has no ID.'')
           else
             (case find_task (\<lambda>t. task_name t = ''import-file'') (job_tasks job) of
                None \<Rightarrow>
                  io_throw (new_Error
                    ''CloudConvert upload task not found in job or task has no ID.'')
              | Some uploadTask \<Rightarrow>
                  if \<not> truthy_str (task_id uploadTask) then
                    io_throw (new_Error
                      ''CloudConvert upload task not found in job or task has no ID.'')
                  else
                    io_bind (fs_mkdtemp w (path_join [os_tmpdir w, ''cc-upload-''])) (\<lambda>tempDir.
                      let tempFilePath = path_join [tempDir, file_name inputFile]
                      in io_bind (fs_writeFile w tempFilePath) (\<lambda>_.
                         io_bind (tasks_upload w uploadTask tempFilePath (file_name inputFile)) (\<lambda>_.
                         io_bind (fs_rm w tempDir) (\<lambda>_.
                         io_return (str_or (job_id job) [])))))))"

text \<open>The message thrown when the completed job has status \<open>error\<close>.\<close>

definition job_failure :: "job \<Rightarrow> string" where
  "job_failure completedJob =
     (let failedTask = find_task (\<lambda>t. task_status t = ''error'') (job_tasks completedJob);
          jobErrorMessage =
            (if is_string (job_message completedJob)
             then Some (string_of (job_message completedJob)) else None);
          taskErrorMessage = (case failedTask of None \<Rightarrow> None | Some t \<Rightarrow> task_message t)
      in ''CloudConvert job failed: ''
           @ str_or taskErrorMessage (str_or jobErrorMessage ''Unknown error from CloudConvert''))"

definition export_failed :: jsval where
  "export_failed = new_Error ''CloudConvert export task failed or did not produce a file.''"

text \<open>What is done with the job that \<open>jobs.wait\<close> returned.\<close>

definition cc_complete :: "world \<Rightarrow> upload \<Rightarrow> string \<Rightarrow> job \<Rightarrow> (bytes \<times> string) io" where
  "cc_complete w inputFile targetFormat completedJob =
     (if job_status completedJob = ''error'' then
        io_throw (new_Error (job_failure completedJob))
      else
        (case find_task (\<lambda>t. task_name t = ''export-file'') (job_tasks completedJob) of
           None \<Rightarrow> io_throw export_failed
         | Some exportTask \<Rightarrow>
             if task_status exportTask \<noteq> ''finished'' then io_throw export_failed
             else
               (case task_result exportTask of
                  None \<Rightarrow> io_throw export_failed
                | Some res \<Rightarrow>
                    (case files res of
                       None \<Rightarrow> io_throw export_failed
                     | Some [] \<Rightarrow> io_throw export_failed
                     | Some (resultFile # others) \<Rightarrow>
                         let convertedFileName =
                               str_or (rf_filename resultFile)
                                 (path_parse_name (file_name inputFile) @ ''.'' @ targetFormat)
                         in if \<not> truthy_str (rf_url resultFile) then
                              io_throw (new_Error
                                ''CloudConvert export task result did not contain a URL.'')
                            else
                              io_bind (fetch w (str_or (rf_url resultFile) [])) (\<lambda>downloadResponse.
                                if \<not> ok downloadResponse \<or> \<not> has_body downloadResponse then
                                  io_throw (new_Error
                                    (''Failed to download converted file from CloudConvert: ''
                                       @ statusText downloadResponse))
                                else io_return (content downloadResponse, convertedFileName))))))"

text \<open>The \<open>catch\<close> block of the function: whatever was thrown is thrown again wrapped.\<close>

definition cc_catch :: "jsval \<Rightarrow> jsval" where
  "cc_catch error =
     new_Error (''CloudConvert processing failed: ''
       @ (if instanceof_Error error then error_message error else ''Unknown CloudConvert error''))"

definition performCloudConversion :: "world \<Rightarrow> upload \<Rightarrow> string \<Rightarrow> (bytes \<times> string) io" where
  "performCloudConversion w inputFile targetFormat =
     io_catch
       (io_bind (cc_submit w inputFile targetFormat) (\<lambda>jid.
        io_bind (jobs_wait w jid) (\<lambda>completedJob.
        cc_complete w inputFile targetFormat completedJob)))
       (\<lambda>error. io_throw (cc_catch error))"

subsection \<open>\<open>POST\<close>\<close>

record convertForm =
  form_document :: "upload option"
  form_targetFormat :: "string option"
  form_inputFileName :: "string option"

type_synonym convertRequest = "jsval + convertForm"

text \<open>A string or \<open>null\<close> inside a template literal.\<close>

fun template_str :: "string option \<Rightarrow> string" where
  "template_str None = ''null''"
| "template_str (Some s) = s"

definition convert_details :: "jsval \<Rightarrow> jsval" where
  "convert_details error =
     (if is_object error then
        (if has_prop ''details'' error then get_prop ''details'' error
         else if has_prop ''response'' error then
           (let errResponse = get_prop ''response'' error
            in if is_object errResponse \<and> has_prop ''data'' errResponse
               then get_prop ''data'' errResponse
               else errResponse)
         else if instanceof_Error error then JNull
         else error)
      else JNull)"

definition convert_catch :: "jsval \<Rightarrow> response" where
  "convert_catch error =
     json_response 500 (JObj
       [(''error'', JStr (if instanceof_Error error then error_message error
                          else ''An unknown error occurred during document conversion.'')),
        (''details'', convert_details error)])"

text \<open>
  \<open>headers.set(name, value)\<close> on the response headers: the platform throws a
  \<open>TypeError\<close> for a value that is not a valid header value.
\<close>

definition headers_set ::
  "world \<Rightarrow> string \<Rightarrow> string \<Rightarrow> (string \<times> string) list \<Rightarrow> (string \<times> string) list io" where
  "headers_set w name v hs =
     (case headers_set_outcome w name v of
        Some e \<Rightarrow> io_throw e
      | None \<Rightarrow> io_return (filter (\<lambda>h. fst h \<noteq> name) hs @ [(name, v)]))"

text \<open>From \<open>new Headers()\<close> to the 200 response; still inside the \<open>try\<close>.\<close>

definition convert_success :: "world \<Rightarrow> string \<Rightarrow> bytes \<Rightarrow> string \<Rightarrow> response io" where
  "convert_success w targetFormat convertedFileBuffer convertedFileName =
     io_bind (headers_set w ''Content-Type''
                (str_or (map_of EXT_TO_MIMETYPE (toLowerCase targetFormat))
                   ''application/octet-stream'') []) (\<lambda>hs.
     io_bind (headers_set w ''Content-Disposition''
                (''attachment; filename='' @ [CHR 0x22] @ convertedFileName @ [CHR 0x22]) hs) (\<lambda>hs'.
     io_return \<lparr>status = 200, headers = hs', body = RawBody convertedFileBuffer\<rparr>))"

text \<open>The body of the \<open>try\<close> block.\<close>

definition convert_try :: "world \<Rightarrow> convertRequest \<Rightarrow> response io" where
  "convert_try w req =
     io_bind (io_of req) (\<lambda>formData.
       case form_document formData of
         None \<Rightarrow>
           io_return (json_response 400 (JObj [(''error'', JStr ''No document file provided.'')]))
       | Some documentFile \<Rightarrow>
           if \<not> truthy_str (form_inputFileName formData) then
             io_return (json_response 400 (JObj [(''error'', JStr ''No document file provided.'')]))
           else if \<not> truthy_str (form_targetFormat formData)
                     \<or> toLowerCase (str_or (form_targetFormat formData) [])
                          \<notin> set SUPPORTED_DOC_OUTPUT_FORMATS_API then
             io_return (json_response 400 (JObj
               [(''error'', JStr (''Unsupported target format: ''
                                   @ template_str (form_targetFormat formData)))]))
           else
             io_bind (performCloudConversion w documentFile (str_or (form_targetFormat formData) []))
               (\<lambda>(convertedFileBuffer, convertedFileName).
                  convert_success w (str_or (form_targetFormat formData) [])
                    convertedFileBuffer convertedFileName))"

definition convert_POST :: "world \<Rightarrow> convertRequest \<Rightarrow> response io" where
  "convert_POST w req =
     (if \<not> truthy_str (env_CLOUDCONVERT_API_KEY w) then
        io_return (json_response 500 (JObj
          [(''error'', JStr ''Server configuration error for conversion service.'')]))
      else
        io_catch (convert_try w req) (\<lambda>error. io_return (convert_catch error)))"

section \<open>Sample worlds\<close>

text \<open>
  A world in which every collaborator answers well, used to run the handlers on concrete
  requests; the other sample worlds change one answer of it.
\<close>

definition audio_format :: videoFormat where
  "audio_format =
     \<lparr>fmt_url = Some ''https://media.example/a'', fmt_container = Some ''webm'',
      hasAudio = True, hasVideo = False\<rparr>"

definition muxed_format :: videoFormat where
  "muxed_format =
     \<lparr>fmt_url = Some ''https://media.example/v'', fmt_container = Some ''mp4'',
      hasAudio = True, hasVideo = True\<rparr>"

definition silent_format :: videoFormat where
  "silent_format =
     \<lparr>fmt_url = Some ''https://media.example/s'', fmt_container = Some ''mp4'',
      hasAudio = False, hasVideo = True\<rparr>"

text \<open>
  A chooser that answers as the library does: a format with a URL that passes the filter
  (here the first one), and the exception \<open>No such format found\<close> when there is none.
\<close>

fun choose_or_throw :: "videoFormat list \<Rightarrow> string \<Rightarrow> formatFilter \<Rightarrow> jsval + videoFormat option" where
  "choose_or_throw fs q (FilterName n) =
     (case List.find (\<lambda>f. truthy_str (fmt_url f) \<and> hasAudio f \<and> \<not> hasVideo f) fs of
        None \<Rightarrow> Inl (new_Error (''No such format found: '' @ q))
      | Some f \<Rightarrow> Inr (Some f))"
| "choose_or_throw fs q (FilterFn p) =
     (case List.find (\<lambda>f. truthy_str (fmt_url f) \<and> p f) fs of
        None \<Rightarrow> Inl (new_Error (''No such format found: '' @ q))
      | Some f \<Rightarrow> Inr (Some f))"

definition import_task :: task where
  "import_task =
     \<lparr>task_id = Some ''t-1'', task_name = ''import-file'', task_status = ''waiting'',
      task_message = None, task_result = None\<rparr>"

definition export_task :: task where
  "export_task =
     \<lparr>task_id = Some ''t-3'', task_name = ''export-file'', task_status = ''finished'',
      task_message = None,
      task_result = Some \<lparr>files = Some
        [\<lparr>rf_filename = Some ''report.pdf'', rf_url = Some ''https://storage.example/r''\<rparr>]\<rparr>\<rparr>"

definition failed_task :: task where
  "failed_task =
     \<lparr>task_id = Some ''t-2'', task_name = ''convert-file'', task_status = ''error'',
      task_message = Some ''Encrypted file'', task_result = None\<rparr>"

definition created_job :: job where
  "created_job =
     \<lparr>job_id = Some ''j-1'', job_status = ''waiting'', job_tasks = Some [import_task],
      job_message = JUndefined\<rparr>"

definition finished_job :: job where
  "finished_job =
     \<lparr>job_id = Some ''j-1'', job_status = ''finished'',
      job_tasks = Some [import_task, export_task], job_message = JUndefined\<rparr>"

definition errored_job :: job where
  "errored_job =
     \<lparr>job_id = Some ''j-1'', job_status = ''error'',
      job_tasks = Some [import_task, failed_task], job_message = JStr ''Job failed''\<rparr>"

definition good_world :: world where
  "good_world =
     \<lparr>env_OPENAI_API_KEY = Some ''sk-test'',
      env_CLOUDCONVERT_API_KEY = Some ''cc-test'',
      os_tmpdir = ''/tmp'',
      unique_suffix = (\<lambda>n. ''1700000000000_k3x9qa''),
      mkdtemp_outcome = (\<lambda>prefix. Inr ''Ab12Cd''),
      writeFile_outcome = (\<lambda>p. None),
      rm_outcome = (\<lambda>p. None),
      access_outcome = (\<lambda>p. None),
      ffmpeg_outcome = (\<lambda>p. None),
      ytdl_validateURL =
        (\<lambda>u. take 32 u = ''https://www.youtube.com/watch?v='' \<and> length u = 43),
      ytdl_getInfo = (\<lambda>u. Inr \<lparr>title = ''Demo: talk'', formats = [muxed_format, audio_format]\<rparr>),
      ytdl_chooseFormat = choose_or_throw,
      ytdl_stream = (\<lambda>u f. StreamEnd),
      whisper_create = (\<lambda>p. Inr (JObj [(''text'', JStr ''hello world'')])),
      cc_jobs_create = (\<lambda>f. Inr (Some created_job)),
      cc_tasks_upload = (\<lambda>t p n. None),
      cc_jobs_wait = (\<lambda>j. Inr finished_job),
      fetch_outcome = (\<lambda>u. Inr \<lparr>ok = True, has_body = True, statusText = ''OK'',
                                   content = [37, 80, 68, 70]\<rparr>),
      headers_set_outcome =
        (\<lambda>name v. if CHR 0x0A \<in> set v \<or> CHR 0x0D \<in> set v
                  then Some (JError ''Invalid header value'' [(''name'', JStr ''TypeError'')])
                  else None)\<rparr>"

definition empty_sys :: sys where
  "empty_sys = \<lparr>fs_paths = [], trace = []\<rparr>"

definition report_upload :: upload where
  "report_upload = \<lparr>file_name = ''report.docx'', file_bytes = [80, 75, 3, 4]\<rparr>"

text \<open>A finished job whose export task produced exactly the given file.\<close>

definition job_with_export :: "resultFile \<Rightarrow> job" where
  "job_with_export rf =
     finished_job\<lparr>job_tasks :=
       Some [import_task, export_task\<lparr>task_result := Some \<lparr>files = Some [rf]\<rparr>\<rparr>]\<rparr>"

text \<open>The status and the \<open>details\<close> field of the response a run returned.\<close>

definition status_of :: "(jsval + response) \<times> sys \<Rightarrow> nat option" where
  "status_of r = (case fst r of Inl e \<Rightarrow> None | Inr resp \<Rightarrow> Some (status resp))"

definition details_of :: "(jsval + response) \<times> sys \<Rightarrow> jsval" where
  "details_of r = (case fst r of Inl e \<Rightarrow> JUndefined | Inr resp \<Rightarrow> body_field ''details'' (body resp))"

section \<open>Auxiliary facts\<close>

lemmas io_defs = io_return_def io_throw_def io_bind_def io_catch_def io_finally_def io_of_def
  emit_def create_path_def remove_tree_def uniqueSuffix_def

lemmas fs_defs = fs_mkdtemp_def fs_writeFile_def fs_rm_def fs_access_def

lemmas path_defs = path_join_def path_normalize_def path_parse_name_def path_basename_def
  inside_dir_def

lemmas sample_defs = good_world_def empty_sys_def report_upload_def audio_format_def
  muxed_format_def silent_format_def import_task_def export_task_def failed_task_def
  created_job_def finished_job_def errored_job_def

lemmas convert_defs = convert_POST_def convert_try_def convert_catch_def convert_details_def
  convert_success_def headers_set_def performCloudConversion_def cc_submit_def cc_complete_def cc_catch_def
  job_failure_def export_failed_def jobs_create_def tasks_upload_def jobs_wait_def fetch_def
  json_response_def new_Error_def SUPPORTED_DOC_OUTPUT_FORMATS_API_def EXT_TO_MIMETYPE_def
  toLowerCase_def lower_char_def

lemmas transcribe_defs = transcribe_POST_def transcribe_try_def transcribe_catch_def
  transcribe_details_def transcribe_cleanup_def transcribe_audio_def transcribeWithWhisper_def
  whisper_transcribe_def whisper_catch_def whisper_text_def unrecognized_response_def
  downloadYouTubeVideoAndExtractAudio_def download_and_extract_def get_info_def
  stream_to_file_def select_format_def sanitize_title_def underscore_spaces_def is_space_def
  extractAudio_def json_response_def new_Error_def

lemma path_checks:
  "path_join [''/tmp'', ''transcribe-session-''] = ''/tmp/transcribe-session-''"
  "path_join [''/tmp/ws'', ''clip.mp4''] = ''/tmp/ws/clip.mp4''"
  "path_join [''/tmp/ws'', ''../evil.mp4''] = ''/tmp/evil.mp4''"
  "path_join [''a'', ''../../b/''] = ''../b/''"
  "path_parse_name ''/tmp/ws/clip.final.mp4'' = ''clip.final''"
  "path_parse_name ''.bashrc'' = ''.bashrc''"
  "path_parse_name ''dir/..'' = ''..''"
  "toLowerCase ''PdF'' = ''pdf''"
  by (simp_all add: path_defs toLowerCase_def lower_char_def)

lemma path_normalize_nonempty: "path_normalize p \<noteq> []"
  by (simp add: path_normalize_def Let_def)

lemma path_join_nonempty: "path_join args \<noteq> []"
  by (simp add: path_join_def path_normalize_nonempty split: list.splits)

lemma str_or_eq: "str_or a d = (if truthy_str a then the a else d)"
  by (cases a) simp_all

lemma case_JStr:
  "(case v of JUndefined \<Rightarrow> g | JNull \<Rightarrow> g | JBool b \<Rightarrow> g | JNum n \<Rightarrow> g | JStr t \<Rightarrow> f t
            | JObj ps \<Rightarrow> g | JError m ps \<Rightarrow> g) =
   (if is_string v then f (string_of v) else g)"
  by (cases v) simp_all

lemma is_string_get_prop: "is_string (get_prop k d) \<Longrightarrow> is_object d \<and> has_prop k d"
  by (cases d) (auto split: option.splits if_splits)

lemma get_prop_absent: "\<not> has_prop k d \<Longrightarrow> get_prop k d = JUndefined"
  by (cases d) (auto split: option.splits)

lemma has_prop_object: "has_prop k d \<Longrightarrow> is_object d"
  by (cases d) simp_all

text \<open>
  On every response that is not \<open>null\<close> or \<open>undefined\<close> the code computes what the
  specification's wording of the normalisation computes.
\<close>

lemma whisper_text_not_nullish:
  assumes "r \<noteq> JNull" and "r \<noteq> JUndefined"
  shows "whisper_text r = spec_transcript r"
proof (cases "is_string (get_prop ''text'' r)")
  case True
  then show ?thesis
    using assms by (simp add: whisper_text_def spec_transcript_def case_JStr)
next
  case top: False
  show ?thesis
  proof (cases "is_string (get_prop ''text'' (get_prop ''data'' r))")
    case True
    then have d: "is_object (get_prop ''data'' r)" "has_prop ''text'' (get_prop ''data'' r)"
      using is_string_get_prop by blast+
    have "has_prop ''data'' r"
    proof (rule ccontr)
      assume "\<not> has_prop ''data'' r"
      then have "get_prop ''data'' r = JUndefined" by (rule get_prop_absent)
      with d(1) show False by simp
    qed
    then have "has_prop ''data'' r" "is_object r"
      using has_prop_object by blast+
    then show ?thesis
      using assms top True d
      by (simp add: whisper_text_def spec_transcript_def case_JStr)
  next
    case False
    then show ?thesis
      using assms top
      by (simp add: whisper_text_def spec_transcript_def case_JStr)
  qed
qed

lemma spec_transcript_error:
  "spec_transcript r = Inl e \<Longrightarrow> e = new_Error unrecognized_response"
  by (simp add: spec_transcript_def case_JStr split: if_splits)

text \<open>A response of \<open>null\<close> makes the property read throw; the catch block wraps that.\<close>

lemma whisper_text_null:
  "whisper_text JNull = Inl (new_Error ''Cannot read properties of null (reading 'text')'')"
  by (simp add: whisper_text_def)

text \<open>Job creation and upload in the sample world, whatever the job later turns into.\<close>

lemma submit_sample:
  "cc_submit (good_world\<lparr>cc_jobs_wait := g\<rparr>) report_upload tf empty_sys =
     (Inr ''j-1'',
      \<lparr>fs_paths = [],
       trace = [JobsCreate (toLowerCase tf), Mkdtemp ''/tmp/cc-upload-Ab12Cd'',
                WriteFile ''/tmp/cc-upload-Ab12Cd/report.docx'',
                TasksUpload ''/tmp/cc-upload-Ab12Cd/report.docx'' ''report.docx'',
                Rm ''/tmp/cc-upload-Ab12Cd'']\<rparr>)"
  by (simp add: cc_submit_def jobs_create_def tasks_upload_def io_defs fs_defs path_defs
        sample_defs Let_def)

subsection \<open>Removals in the transcription route\<close>

lemma no_removalI:
  "(\<And>s. \<exists>evs. trace (snd (m s)) = trace s @ evs \<and> list_all (\<lambda>e. \<not> is_rm e) evs)
     \<Longrightarrow> no_removal m"
  by (simp add: no_removal_def)

lemma no_removal_return [intro!, simp]: "no_removal (io_return x)"
  by (simp add: no_removal_def io_return_def)

lemma no_removal_throw [intro!, simp]: "no_removal (io_throw e)"
  by (simp add: no_removal_def io_throw_def)

lemma no_removal_of [intro!, simp]: "no_removal (io_of r)"
  by (simp add: no_removal_def io_of_def)

lemma no_removal_emit: "\<not> is_rm ev \<Longrightarrow> no_removal (emit ev)"
  by (simp add: no_removal_def emit_def)

lemma no_removal_create_path [intro!, simp]: "no_removal (create_path p)"
  by (simp add: no_removal_def create_path_def)

lemma no_removal_uniqueSuffix [intro!, simp]: "no_removal (uniqueSuffix w)"
  by (simp add: no_removal_def uniqueSuffix_def)

lemma no_removal_bind [intro!]:
  assumes "no_removal m" and "\<And>x. no_removal (f x)"
  shows "no_removal (io_bind m f)"
proof (rule no_removalI)
  fix s
  obtain evs where m: "trace (snd (m s)) = trace s @ evs" "list_all (\<lambda>e. \<not> is_rm e) evs"
    using assms(1) by (auto simp: no_removal_def)
  show "\<exists>evs. trace (snd (io_bind m f s)) = trace s @ evs \<and> list_all (\<lambda>e. \<not> is_rm e) evs"
  proof (cases "m s")
    case (Pair r s')
    show ?thesis
    proof (cases r)
      case (Inl e)
      with Pair m show ?thesis by (auto simp: io_bind_def)
    next
      case (Inr x)
      obtain evs' where f: "trace (snd (f x s')) = trace s' @ evs'"
          "list_all (\<lambda>e. \<not> is_rm e) evs'"
        using assms(2) [of x] by (auto simp: no_removal_def)
      have "trace (snd (io_bind m f s)) = trace s @ (evs @ evs')"
        using Pair Inr m f by (simp add: io_bind_def)
      moreover have "list_all (\<lambda>e. \<not> is_rm e) (evs @ evs')"
        using m f by simp
      ultimately show ?thesis by blast
    qed
  qed
qed

lemma no_removal_catch [intro!]:
  assumes "no_removal m" and "\<And>e. no_removal (h e)"
  shows "no_removal (io_catch m h)"
proof (rule no_removalI)
  fix s
  obtain evs where m: "trace (snd (m s)) = trace s @ evs" "list_all (\<lambda>e. \<not> is_rm e) evs"
    using assms(1) by (auto simp: no_removal_def)
  show "\<exists>evs. trace (snd (io_catch m h s)) = trace s @ evs \<and> list_all (\<lambda>e. \<not> is_rm e) evs"
  proof (cases "m s")
    case (Pair r s')
    show ?thesis
    proof (cases r)
      case (Inr x)
      with Pair m show ?thesis by (auto simp: io_catch_def)
    next
      case (Inl e)
      obtain evs' where h: "trace (snd (h e s')) = trace s' @ evs'"
          "list_all (\<lambda>e. \<not> is_rm e) evs'"
        using assms(2) [of e] by (auto simp: no_removal_def)
      have "trace (snd (io_catch m h s)) = trace s @ (evs @ evs')"
        using Pair Inl m h by (simp add: io_catch_def)
      moreover have "list_all (\<lambda>e. \<not> is_rm e) (evs @ evs')"
        using m h by simp
      ultimately show ?thesis by blast
    qed
  qed
qed

lemma no_removal_extractAudio [intro!, simp]: "no_removal (extractAudio w v d)"
  unfolding extractAudio_def Let_def
  by (auto intro!: no_removal_emit split: option.splits)

lemma no_removal_writeFile [intro!, simp]: "no_removal (fs_writeFile w p)"
  unfolding fs_writeFile_def
  by (auto intro!: no_removal_emit split: option.splits)

lemma no_removal_access [intro!, simp]: "no_removal (fs_access w p)"
  unfolding fs_access_def
  by (auto intro!: no_removal_emit split: option.splits)

lemma no_removal_whisper [intro!, simp]: "no_removal (transcribeWithWhisper w p)"
  unfolding transcribeWithWhisper_def whisper_transcribe_def
  by (auto intro!: no_removal_emit)

lemma no_removal_stream [intro!, simp]: "no_removal (stream_to_file w u f p)"
  unfolding stream_to_file_def
  by (auto intro!: no_removal_emit split: streamOutcome.splits)

lemma no_removal_download [intro!, simp]:
  "no_removal (downloadYouTubeVideoAndExtractAudio w u d)"
  unfolding downloadYouTubeVideoAndExtractAudio_def download_and_extract_def get_info_def Let_def
  by (auto intro!: no_removal_emit split: sum.splits)

lemma no_removal_transcribe_audio [intro!, simp]: "no_removal (transcribe_audio w a t n)"
  unfolding transcribe_audio_def by auto

lemma no_removal_transcribe_try [intro!, simp]: "no_removal (transcribe_try w req d)"
  unfolding transcribe_try_def Let_def
  by (auto split: option.splits prod.splits)

lemma transcribe_body_returns:
  "\<exists>r. fst (io_catch (transcribe_try w req d) (\<lambda>error. io_return (transcribe_catch error)) t) = Inr r"
  by (cases "transcribe_try w req d t") (auto simp: io_catch_def io_return_def split: sum.splits)

text \<open>
  The transcription route: once the workspace exists, every run returns a response, and
  its calls are the creation of the workspace, calls that remove nothing, and one removal
  of the workspace at the end; if that removal does not fail, the workspace is gone.
\<close>

lemma transcribe_POST_removes_workspace:
  assumes "mkdtemp_outcome w (path_join [os_tmpdir w, ''transcribe-session-'']) = Inr rnd"
    and "d = path_join [os_tmpdir w, ''transcribe-session-''] @ rnd"
  shows "\<exists>r evs. fst (transcribe_POST w req s) = Inr r
           \<and> trace (snd (transcribe_POST w req s)) = trace s @ Mkdtemp d # evs @ [Rm d]
           \<and> list_all (\<lambda>e. \<not> is_rm e) evs
           \<and> (rm_outcome w d = None \<longrightarrow> d \<notin> set (fs_paths (snd (transcribe_POST w req s))))"
proof -
  let ?body = "io_catch (transcribe_try w req d) (\<lambda>error. io_return (transcribe_catch error))"
  let ?s0 = "s\<lparr>trace := trace s @ [Mkdtemp d], fs_paths := d # fs_paths s\<rparr>"
  have d: "d \<noteq> []" using assms(2) path_join_nonempty by simp
  obtain r where r: "fst (?body ?s0) = Inr r"
    using transcribe_body_returns by blast
  have "no_removal ?body" by auto
  then have "\<exists>evs. trace (snd (?body ?s0)) = trace ?s0 @ evs \<and> list_all (\<lambda>e. \<not> is_rm e) evs"
    unfolding no_removal_def by (rule spec)
  then obtain evs where evs: "trace (snd (?body ?s0)) = trace ?s0 @ evs"
      "list_all (\<lambda>e. \<not> is_rm e) evs"
    by blast
  obtain t where t: "?body ?s0 = (Inr r, t)"
    using r by (cases "?body ?s0") auto
  have run: "transcribe_POST w req s =
      (Inr r, snd (io_catch (fs_rm w d) (\<lambda>cleanupError. io_return ()) t))"
    using assms d t
    by (simp add: transcribe_POST_def transcribe_cleanup_def fs_mkdtemp_def io_defs
          split: prod.splits sum.splits)
  show ?thesis
    using run evs t
    by (cases "rm_outcome w d") (auto simp: fs_rm_def io_defs)
qed

text \<open>When the chooser throws on the first request, there is no second request.\<close>

lemma select_format_throws:
  "ytdl_chooseFormat w fs ''highestaudio'' (FilterName ''audioonly'') = Inl e
     \<Longrightarrow> select_format w fs = Inl e"
  by (simp add: select_format_def)

text \<open>
  With a chooser that, when it returns, returns a format with a URL (as the library
  does), the second request is never made: the outcome of format selection is the
  outcome of the first request.
\<close>

lemma fallback_never_taken:
  assumes "\<And>a. ytdl_chooseFormat w fs ''highestaudio'' (FilterName ''audioonly'') = Inr a
             \<Longrightarrow> \<not> no_usable_format a"
  shows "select_format w fs =
           (case ytdl_chooseFormat w fs ''highestaudio'' (FilterName ''audioonly'') of
              Inl e \<Rightarrow> Inl e
            | Inr a \<Rightarrow> Inr (the a))"
  using assms
  by (cases "ytdl_chooseFormat w fs ''highestaudio'' (FilterName ''audioonly'')")
     (simp_all add: select_format_def)

text \<open>The first clause of the selection: a usable audio-only format is the one fetched.\<close>

lemma audio_only_format_is_fetched:
  assumes "ytdl_validateURL w u"
    and "ytdl_getInfo w u = Inr info"
    and "ytdl_chooseFormat w (formats info) ''highestaudio'' (FilterName ''audioonly'') = Inr (Some f)"
    and "truthy_str (fmt_url f)"
  shows "downloadYouTubeVideoAndExtractAudio w u dir s =
           download_and_extract w u dir (sanitize_title (title info)) f
             (s\<lparr>trace := trace s @ [GetInfo u]\<rparr>)"
  using assms
  by (simp add: downloadYouTubeVideoAndExtractAudio_def get_info_def select_format_def io_defs)

section \<open>The claims\<close>

subsection \<open>Workspace removal\<close>

text \<open>
  Claim C1: on every exit path of either endpoint the directory created for the request
  is removed exactly once before the response is returned. The transcription route does
  so in its \<open>finally\<close> block (\<open>transcribe_POST_removes_workspace\<close> above). The
  conversion route removes its upload directory only after a successful upload: when the
  provider's upload call throws, the handler answers 500, no removal has been attempted,
  and the directory and the file in it are still there.
\<close>

theorem failed_upload_keeps_directory:
  "convert_POST (good_world\<lparr>cc_tasks_upload := (\<lambda>t p n. Some (new_Error ''socket hang up''))\<rparr>)
     (Inr \<lparr>form_document = Some report_upload, form_targetFormat = Some ''pdf'',
           form_inputFileName = Some ''report.docx''\<rparr>) empty_sys =
   (Inr (json_response 500 (JObj
      [(''error'', JStr ''CloudConvert processing failed: socket hang up''),
       (''details'', JNull)])),
    \<lparr>fs_paths = [''/tmp/cc-upload-Ab12Cd/report.docx'', ''/tmp/cc-upload-Ab12Cd''],
     trace = [JobsCreate ''pdf'', Mkdtemp ''/tmp/cc-upload-Ab12Cd'',
              WriteFile ''/tmp/cc-upload-Ab12Cd/report.docx'',
              TasksUpload ''/tmp/cc-upload-Ab12Cd/report.docx'' ''report.docx'']\<rparr>)"
  by (simp add: convert_defs io_defs fs_defs path_defs sample_defs Let_def)

subsection \<open>Invalid URLs\<close>

text \<open>
  Claim C2: a syntactically invalid \<open>videoUrl\<close> is answered with status 400 and an
  invalid-URL message, before any network call. As the code has it: once the workspace is
  created, a non-empty \<open>videoUrl\<close> that the URL validation rejects is answered with
  status 500, error \<open>Invalid YouTube URL\<close> and \<open>details\<close> \<open>null\<close>; the only
  calls made are the creation and the removal of the workspace.
\<close>

theorem invalid_url_is_500:
  assumes "mkdtemp_outcome w (path_join [os_tmpdir w, ''transcribe-session-'']) = Inr rnd"
    and "form_operationType f = Some ''url''"
    and "form_videoUrl f = Some u" and "u \<noteq> []"
    and "\<not> ytdl_validateURL w u"
  shows "fst (transcribe_POST w (Inr f) s) =
           Inr (json_response 500 (JObj
                  [(''error'', JStr ''Invalid YouTube URL''), (''details'', JNull)]))
         \<and> trace (snd (transcribe_POST w (Inr f) s)) =
           trace s @ [Mkdtemp (path_join [os_tmpdir w, ''transcribe-session-''] @ rnd),
                      Rm (path_join [os_tmpdir w, ''transcribe-session-''] @ rnd)]
         \<and> filter is_network (trace (snd (transcribe_POST w (Inr f) s))) =
           filter is_network (trace s)"
proof -
  let ?d = "path_join [os_tmpdir w, ''transcribe-session-''] @ rnd"
  have d: "?d \<noteq> []" using path_join_nonempty by simp
  have body: "io_catch (transcribe_try w (Inr f) ?d) (\<lambda>error. io_return (transcribe_catch error)) t =
      (Inr (json_response 500 (JObj
                  [(''error'', JStr ''Invalid YouTube URL''), (''details'', JNull)])), t)" for t
    using assms(2-5)
    by (simp add: transcribe_try_def downloadYouTubeVideoAndExtractAudio_def transcribe_catch_def
          transcribe_details_def new_Error_def io_defs)
  show ?thesis
    using assms(1) d body
    by (cases "rm_outcome w ?d")
       (simp_all add: transcribe_POST_def transcribe_cleanup_def fs_defs io_defs)
qed

theorem invalid_url_is_500_witness:
  "fst (transcribe_POST good_world
          (Inr \<lparr>form_operationType = Some ''url'', form_video = None,
                form_videoUrl = Some ''not-a-url''\<rparr>) empty_sys) =
     Inr (json_response 500 (JObj
            [(''error'', JStr ''Invalid YouTube URL''), (''details'', JNull)]))
   \<and> trace (snd (transcribe_POST good_world
          (Inr \<lparr>form_operationType = Some ''url'', form_video = None,
                form_videoUrl = Some ''not-a-url''\<rparr>) empty_sys)) =
     [Mkdtemp ''/tmp/transcribe-session-Ab12Cd'', Rm ''/tmp/transcribe-session-Ab12Cd'']
   \<and> filter is_network (trace (snd (transcribe_POST good_world
          (Inr \<lparr>form_operationType = Some ''url'', form_video = None,
                form_videoUrl = Some ''not-a-url''\<rparr>) empty_sys))) = []"
  using invalid_url_is_500
    [of good_world "''Ab12Cd''"
        "\<lparr>form_operationType = Some ''url'', form_video = None,
          form_videoUrl = Some ''not-a-url''\<rparr>" "''not-a-url''" empty_sys]
  by (simp add: good_world_def empty_sys_def path_defs)

text \<open>The scenario of the claim: \<open>not-a-url\<close> is answered 500, not 400.\<close>

theorem invalid_url_counterexample:
  "status_of (transcribe_POST good_world
     (Inr \<lparr>form_operationType = Some ''url'', form_video = None,
           form_videoUrl = Some ''not-a-url''\<rparr>) empty_sys) = Some 500
   \<and> status_of (transcribe_POST good_world
     (Inr \<lparr>form_operationType = Some ''url'', form_video = None,
           form_videoUrl = Some ''not-a-url''\<rparr>) empty_sys) \<noteq> Some 400"
  by (simp add: status_of_def transcribe_defs io_defs fs_defs path_defs sample_defs Let_def)

subsection \<open>A failed conversion job\<close>

text \<open>
  Claim C3: when the job ends with status \<open>error\<close> and a task carries a message,
  the conversion endpoint answers 500 with \<open>details\<close> containing that message. As
  the code has it: the answer is 500, the message of the failed task ends the
  \<open>error\<close> field, after the two prefixes the orchestrator adds, and \<open>details\<close>
  is \<open>null\<close>.
\<close>

theorem job_error_response:
  assumes "truthy_str (env_CLOUDCONVERT_API_KEY w)"
    and "form_document f = Some d"
    and "truthy_str (form_inputFileName f)"
    and "form_targetFormat f = Some tf"
    and "toLowerCase tf \<in> set SUPPORTED_DOC_OUTPUT_FORMATS_API"
    and "cc_submit w d tf s = (Inr jid, s1)"
    and "cc_jobs_wait w jid = Inr cj"
    and "job_status cj = ''error''"
    and "find_task (\<lambda>t. task_status t = ''error'') (job_tasks cj) = Some t"
    and "task_message t = Some m" and "m \<noteq> []"
  shows "fst (convert_POST w (Inr f) s) =
           Inr (json_response 500 (JObj
             [(''error'', JStr (''CloudConvert processing failed: CloudConvert job failed: '' @ m)),
              (''details'', JNull)]))"
proof -
  have tf: "tf \<noteq> []"
    using assms(5) by (auto simp: SUPPORTED_DOC_OUTPUT_FORMATS_API_def toLowerCase_def)
  have "job_failure cj = ''CloudConvert job failed: '' @ m"
    using assms(9-11) by (simp add: job_failure_def)
  then have run: "performCloudConversion w d tf s =
      (Inl (new_Error (''CloudConvert processing failed: CloudConvert job failed: '' @ m)),
       s1\<lparr>trace := trace s1 @ [JobsWait jid]\<rparr>)"
    using assms(6-8)
    by (simp add: performCloudConversion_def cc_complete_def cc_catch_def jobs_wait_def
          new_Error_def io_defs)
  show ?thesis
    using assms(1-5) tf run
    by (simp add: convert_POST_def convert_try_def convert_catch_def convert_details_def
          new_Error_def io_defs)
qed

theorem job_error_response_witness:
  "fst (convert_POST (good_world\<lparr>cc_jobs_wait := (\<lambda>j. Inr errored_job)\<rparr>)
          (Inr \<lparr>form_document = Some report_upload, form_targetFormat = Some ''pdf'',
                form_inputFileName = Some ''report.docx''\<rparr>) empty_sys) =
     Inr (json_response 500 (JObj
       [(''error'', JStr ''CloudConvert processing failed: CloudConvert job failed: Encrypted file''),
        (''details'', JNull)]))"
  using job_error_response
    [of "good_world\<lparr>cc_jobs_wait := (\<lambda>j. Inr errored_job)\<rparr>"
        "\<lparr>form_document = Some report_upload, form_targetFormat = Some ''pdf'',
          form_inputFileName = Some ''report.docx''\<rparr>"
        report_upload "''pdf''" empty_sys "''j-1''" _ errored_job failed_task "''Encrypted file''",
     OF _ _ _ _ _ submit_sample]
  by (simp add: good_world_def errored_job_def failed_task_def import_task_def
        SUPPORTED_DOC_OUTPUT_FORMATS_API_def toLowerCase_def lower_char_def)

text \<open>The scenario of the claim: the task says \<open>Encrypted file\<close>, \<open>details\<close> is \<open>null\<close>.\<close>

theorem job_error_details_counterexample:
  "details_of (convert_POST (good_world\<lparr>cc_jobs_wait := (\<lambda>j. Inr errored_job)\<rparr>)
     (Inr \<lparr>form_document = Some report_upload, form_targetFormat = Some ''pdf'',
           form_inputFileName = Some ''report.docx''\<rparr>) empty_sys) = JNull"
  by (simp add: details_of_def convert_defs io_defs fs_defs path_defs sample_defs Let_def)

subsection \<open>Unsupported target formats\<close>

text \<open>
  Claim C4: a request whose \<open>targetFormat\<close>, lower-cased, is outside the supported
  set is answered 400 and the provider is never contacted. As the code has it: the
  answer is 400 when the server's API key is configured and 500 when it is not; in both
  cases no call at all is made, so job creation is not invoked.
\<close>

theorem unsupported_format_rejected:
  assumes "\<forall>tf. form_targetFormat f = Some tf \<longrightarrow>
             toLowerCase tf \<notin> set SUPPORTED_DOC_OUTPUT_FORMATS_API"
  shows "convert_POST w (Inr f) s =
           (Inr (if \<not> truthy_str (env_CLOUDCONVERT_API_KEY w) then
                   json_response 500 (JObj
                     [(''error'', JStr ''Server configuration error for conversion service.'')])
                 else if form_document f = None \<or> \<not> truthy_str (form_inputFileName f) then
                   json_response 400 (JObj [(''error'', JStr ''No document file provided.'')])
                 else
                   json_response 400 (JObj
                     [(''error'', JStr (''Unsupported target format: ''
                                         @ template_str (form_targetFormat f)))])),
            s)"
  using assms
  by (cases "form_targetFormat f"; cases "form_document f")
     (simp_all add: convert_POST_def convert_try_def io_defs)

theorem unsupported_format_rejected_witness:
  "convert_POST good_world
     (Inr \<lparr>form_document = Some report_upload, form_targetFormat = Some ''EXE'',
           form_inputFileName = Some ''report.docx''\<rparr>) empty_sys =
   (Inr (json_response 400 (JObj [(''error'', JStr ''Unsupported target format: EXE'')])),
    empty_sys)"
  using unsupported_format_rejected
    [of "\<lparr>form_document = Some report_upload, form_targetFormat = Some ''EXE'',
          form_inputFileName = Some ''report.docx''\<rparr>" good_world empty_sys]
  by (simp add: good_world_def report_upload_def SUPPORTED_DOC_OUTPUT_FORMATS_API_def
        toLowerCase_def lower_char_def)

text \<open>Without the API key the same request is answered 500.\<close>

theorem unsupported_format_counterexample:
  "status_of (convert_POST (good_world\<lparr>env_CLOUDCONVERT_API_KEY := None\<rparr>)
     (Inr \<lparr>form_document = Some report_upload, form_targetFormat = Some ''exe'',
           form_inputFileName = Some ''report.docx''\<rparr>) empty_sys) = Some 500
   \<and> status_of (convert_POST (good_world\<lparr>env_CLOUDCONVERT_API_KEY := None\<rparr>)
     (Inr \<lparr>form_document = Some report_upload, form_targetFormat = Some ''exe'',
           form_inputFileName = Some ''report.docx''\<rparr>) empty_sys) \<noteq> Some 400"
  by (simp add: status_of_def convert_POST_def json_response_def io_defs good_world_def)

subsection \<open>Format selection\<close>

text \<open>
  Claim C5: the remote fetch first takes the best audio-only format; if no audio-only
  format with a URL exists, it falls back to the best format that includes an audio
  track; if neither exists, the acquisition fails with an error and nothing is
  downloaded. The function is written with that fallback, but the chooser does not
  return an empty answer: it throws. For a video whose only format with audio also has
  video, the first request throws \<open>No such format found: highestaudio\<close>, the
  second request, which would have found that format, is never made, and the
  acquisition fails after the metadata lookup.
\<close>

theorem fallback_not_reached:
  "downloadYouTubeVideoAndExtractAudio
     (good_world\<lparr>ytdl_getInfo :=
        (\<lambda>u. Inr \<lparr>title = ''Demo: talk'', formats = [silent_format, muxed_format]\<rparr>)\<rparr>)
     ''https://www.youtube.com/watch?v=dQw4w9WgXcQ'' ''/tmp/ws'' empty_sys =
     (Inl (new_Error ''No such format found: highestaudio''),
      \<lparr>fs_paths = [], trace = [GetInfo ''https://www.youtube.com/watch?v=dQw4w9WgXcQ'']\<rparr>)
   \<and> choose_or_throw [silent_format, muxed_format] ''highest'' (FilterFn hasAudio) =
       Inr (Some muxed_format)"
  by (simp add: downloadYouTubeVideoAndExtractAudio_def get_info_def select_format_def
        new_Error_def io_defs sample_defs)

subsection \<open>Normalisation of the transcript\<close>

text \<open>
  Claim C6: the transcript is computed from the provider's response object in this order:
  the \<open>text\<close> field if it is a string, else a top-level \<open>text\<close> string, else a
  \<open>text\<close> string under \<open>data\<close>; if none is found the function fails with an error
  saying that the structure of the response was unexpected.
\<close>

theorem whisper_normalization:
  assumes "truthy_str (env_OPENAI_API_KEY w)"
    and "access_outcome w p = None"
    and "whisper_create w p = Inr (JObj ps)"
  shows "fst (transcribeWithWhisper w p s) =
           (case spec_transcript (JObj ps) of
              Inr t \<Rightarrow> Inr t
            | Inl e \<Rightarrow>
                Inl (new_Error (''Whisper API transcription failed: '' @ unrecognized_response)))"
proof (cases "spec_transcript (JObj ps)")
  case (Inl e)
  then have "whisper_text (JObj ps) = Inl (new_Error unrecognized_response)"
    using spec_transcript_error whisper_text_not_nullish [of "JObj ps"] by auto
  then show ?thesis
    using assms Inl
    by (simp add: transcribeWithWhisper_def whisper_transcribe_def whisper_catch_def fs_access_def
          new_Error_def io_defs)
next
  case (Inr t)
  then have "whisper_text (JObj ps) = Inr t"
    using whisper_text_not_nullish [of "JObj ps"] by simp
  then show ?thesis
    using assms Inr
    by (simp add: transcribeWithWhisper_def whisper_transcribe_def fs_access_def io_defs)
qed

theorem whisper_normalization_witness:
  "fst (transcribeWithWhisper good_world ''/tmp/ws/a.mp3'' empty_sys) = Inr ''hello world''
   \<and> fst (transcribeWithWhisper
            (good_world\<lparr>whisper_create :=
               (\<lambda>p. Inr (JObj [(''text'', JNum 5), (''data'', JObj [(''text'', JStr ''nested'')])]))\<rparr>)
            ''/tmp/ws/a.mp3'' empty_sys) = Inr ''nested''
   \<and> fst (transcribeWithWhisper
            (good_world\<lparr>whisper_create := (\<lambda>p. Inr (JObj [(''data'', JStr ''text'')]))\<rparr>)
            ''/tmp/ws/a.mp3'' empty_sys) =
       Inl (new_Error (''Whisper API transcription failed: '' @ unrecognized_response))"
  using whisper_normalization
    [of good_world "''/tmp/ws/a.mp3''" "[(''text'', JStr ''hello world'')]" empty_sys]
    whisper_normalization
    [of "good_world\<lparr>whisper_create :=
               (\<lambda>p. Inr (JObj [(''text'', JNum 5), (''data'', JObj [(''text'', JStr ''nested'')])]))\<rparr>"
        "''/tmp/ws/a.mp3''"
        "[(''text'', JNum 5), (''data'', JObj [(''text'', JStr ''nested'')])]" empty_sys]
    whisper_normalization
    [of "good_world\<lparr>whisper_create := (\<lambda>p. Inr (JObj [(''data'', JStr ''text'')]))\<rparr>"
        "''/tmp/ws/a.mp3''" "[(''data'', JStr ''text'')]" empty_sys]
  by (simp add: good_world_def spec_transcript_def)

subsection \<open>The message of a failed job\<close>

text \<open>
  Claim C7: when the job completes with status \<open>error\<close>, the message the orchestrator
  raises is the message of the task whose status is \<open>error\<close>, else the job-level
  message, else a fixed fallback text (a missing and an empty message count as absent).
\<close>

theorem job_error_precedence:
  assumes "cc_submit w inputFile tf s = (Inr jid, s1)"
    and "cc_jobs_wait w jid = Inr cj"
    and "job_status cj = ''error''"
    and "(case find_task (\<lambda>t. task_status t = ''error'') (job_tasks cj) of
            None \<Rightarrow> None | Some t \<Rightarrow> task_message t) = tmsg"
  shows "fst (performCloudConversion w inputFile tf s) =
           Inl (new_Error (''CloudConvert processing failed: CloudConvert job failed: '' @
             (if truthy_str tmsg then the tmsg
              else if is_string (job_message cj) \<and> job_message cj \<noteq> JStr []
                then string_of (job_message cj)
              else ''Unknown error from CloudConvert'')))"
proof -
  have run: "fst (performCloudConversion w inputFile tf s) =
               Inl (cc_catch (new_Error (job_failure cj)))"
    using assms(1-3)
    by (simp add: performCloudConversion_def cc_complete_def jobs_wait_def io_defs)
  have msg: "job_failure cj = ''CloudConvert job failed: '' @
             (if truthy_str tmsg then the tmsg
              else if is_string (job_message cj) \<and> job_message cj \<noteq> JStr []
                then string_of (job_message cj)
              else ''Unknown error from CloudConvert'')"
    using assms(4) by (cases "job_message cj") (simp_all add: job_failure_def str_or_eq)
  show ?thesis
    unfolding run msg by (simp add: cc_catch_def new_Error_def)
qed

theorem job_error_precedence_witness:
  "fst (performCloudConversion (good_world\<lparr>cc_jobs_wait := (\<lambda>j. Inr errored_job)\<rparr>)
          report_upload ''pdf'' empty_sys) =
     Inl (new_Error ''CloudConvert processing failed: CloudConvert job failed: Encrypted file'')
   \<and> fst (performCloudConversion
            (good_world\<lparr>cc_jobs_wait :=
               (\<lambda>j. Inr (errored_job\<lparr>job_tasks := Some [import_task]\<rparr>))\<rparr>)
            report_upload ''pdf'' empty_sys) =
     Inl (new_Error ''CloudConvert processing failed: CloudConvert job failed: Job failed'')
   \<and> fst (performCloudConversion
            (good_world\<lparr>cc_jobs_wait :=
               (\<lambda>j. Inr (errored_job\<lparr>job_tasks := None, job_message := JUndefined\<rparr>))\<rparr>)
            report_upload ''pdf'' empty_sys) =
     Inl (new_Error
       ''CloudConvert processing failed: CloudConvert job failed: Unknown error from CloudConvert'')"
proof (intro conjI)
  show "fst (performCloudConversion (good_world\<lparr>cc_jobs_wait := (\<lambda>j. Inr errored_job)\<rparr>)
          report_upload ''pdf'' empty_sys) =
     Inl (new_Error ''CloudConvert processing failed: CloudConvert job failed: Encrypted file'')"
    using job_error_precedence [OF submit_sample, of "\<lambda>j. Inr errored_job" errored_job
        "Some ''Encrypted file''" "''pdf''"]
    by (simp add: errored_job_def import_task_def failed_task_def)
  show "fst (performCloudConversion
            (good_world\<lparr>cc_jobs_wait :=
               (\<lambda>j. Inr (errored_job\<lparr>job_tasks := Some [import_task]\<rparr>))\<rparr>)
            report_upload ''pdf'' empty_sys) =
     Inl (new_Error ''CloudConvert processing failed: CloudConvert job failed: Job failed'')"
    using job_error_precedence [OF submit_sample,
        of "\<lambda>j. Inr (errored_job\<lparr>job_tasks := Some [import_task]\<rparr>)"
           "errored_job\<lparr>job_tasks := Some [import_task]\<rparr>" None "''pdf''"]
    by (simp add: errored_job_def import_task_def)
  show "fst (performCloudConversion
            (good_world\<lparr>cc_jobs_wait :=
               (\<lambda>j. Inr (errored_job\<lparr>job_tasks := None, job_message := JUndefined\<rparr>))\<rparr>)
            report_upload ''pdf'' empty_sys) =
     Inl (new_Error
       ''CloudConvert processing failed: CloudConvert job failed: Unknown error from CloudConvert'')"
    using job_error_precedence [OF submit_sample,
        of "\<lambda>j. Inr (errored_job\<lparr>job_tasks := None, job_message := JUndefined\<rparr>)"
           "errored_job\<lparr>job_tasks := None, job_message := JUndefined\<rparr>" None "''pdf''"]
    by (simp add: errored_job_def)
qed

subsection \<open>The name of the converted file\<close>

text \<open>
  Claim C8: when the job has finished and the export task is finished with a non-empty
  file list, the output file name is the declared name of the first result file or, if
  that is absent, the stem of the input file's name followed by a dot and the target
  format; if the first result file has no download URL, the orchestrator fails instead of
  returning a result.
\<close>

theorem converted_file_name:
  assumes "cc_submit w inputFile tf s = (Inr jid, s1)"
    and "cc_jobs_wait w jid = Inr cj"
    and "job_status cj = ''finished''"
    and "find_task (\<lambda>t. task_name t = ''export-file'') (job_tasks cj) = Some et"
    and "task_status et = ''finished''"
    and "task_result et = Some res"
    and "files res = Some (rf # others)"
  shows "fst (performCloudConversion w inputFile tf s) =
           (if \<not> truthy_str (rf_url rf) then
              Inl (new_Error (''CloudConvert processing failed: ''
                     @ ''CloudConvert export task result did not contain a URL.''))
            else
              (case fetch_outcome w (the (rf_url rf)) of
                 Inl e \<Rightarrow> Inl (cc_catch e)
               | Inr dl \<Rightarrow>
                   if ok dl \<and> has_body dl then
                     Inr (content dl,
                          if truthy_str (rf_filename rf) then the (rf_filename rf)
                          else path_parse_name (file_name inputFile) @ ''.'' @ tf)
                   else
                     Inl (new_Error (''CloudConvert processing failed: ''
                            @ ''Failed to download converted file from CloudConvert: ''
                            @ statusText dl))))"
proof (cases "truthy_str (rf_url rf)")
  case False
  then show ?thesis
    using assms
    by (simp add: performCloudConversion_def cc_complete_def cc_catch_def jobs_wait_def
          new_Error_def io_defs Let_def)
next
  case True
  then have url: "str_or (rf_url rf) [] = the (rf_url rf)"
    by (simp add: str_or_eq)
  show ?thesis
  proof (cases "fetch_outcome w (the (rf_url rf))")
    case (Inl e)
    then show ?thesis
      using assms True url
      by (simp add: performCloudConversion_def cc_complete_def jobs_wait_def fetch_def
            io_defs Let_def)
  next
    case (Inr dl)
    then show ?thesis
      using assms True url
      by (simp add: performCloudConversion_def cc_complete_def cc_catch_def jobs_wait_def
            fetch_def new_Error_def str_or_eq io_defs Let_def)
  qed
qed

theorem converted_file_name_witness:
  "fst (performCloudConversion (good_world\<lparr>cc_jobs_wait := (\<lambda>j. Inr finished_job)\<rparr>)
          report_upload ''pdf'' empty_sys) =
     Inr ([37, 80, 68, 70], ''report.pdf'')
   \<and> fst (performCloudConversion
            (good_world\<lparr>cc_jobs_wait := (\<lambda>j. Inr (job_with_export
               \<lparr>rf_filename = None, rf_url = Some ''https://storage.example/r''\<rparr>))\<rparr>)
            report_upload ''txt'' empty_sys) =
     Inr ([37, 80, 68, 70], ''report.txt'')
   \<and> fst (performCloudConversion
            (good_world\<lparr>cc_jobs_wait := (\<lambda>j. Inr (job_with_export
               \<lparr>rf_filename = Some ''out.pdf'', rf_url = None\<rparr>))\<rparr>)
            report_upload ''pdf'' empty_sys) =
     Inl (new_Error
       ''CloudConvert processing failed: CloudConvert export task result did not contain a URL.'')"
proof (intro conjI)
  show "fst (performCloudConversion (good_world\<lparr>cc_jobs_wait := (\<lambda>j. Inr finished_job)\<rparr>)
          report_upload ''pdf'' empty_sys) =
     Inr ([37, 80, 68, 70], ''report.pdf'')"
    using converted_file_name [OF submit_sample, of "\<lambda>j. Inr finished_job" finished_job
        export_task
        "\<lparr>files = Some [\<lparr>rf_filename = Some ''report.pdf'',
                            rf_url = Some ''https://storage.example/r''\<rparr>]\<rparr>"
        "\<lparr>rf_filename = Some ''report.pdf'', rf_url = Some ''https://storage.example/r''\<rparr>"
        "[]" "''pdf''"]
    by (simp add: good_world_def finished_job_def export_task_def import_task_def)
  show "fst (performCloudConversion
            (good_world\<lparr>cc_jobs_wait := (\<lambda>j. Inr (job_with_export
               \<lparr>rf_filename = None, rf_url = Some ''https://storage.example/r''\<rparr>))\<rparr>)
            report_upload ''txt'' empty_sys) =
     Inr ([37, 80, 68, 70], ''report.txt'')"
    using converted_file_name [OF submit_sample,
        of "\<lambda>j. Inr (job_with_export
               \<lparr>rf_filename = None, rf_url = Some ''https://storage.example/r''\<rparr>)"
           "job_with_export \<lparr>rf_filename = None, rf_url = Some ''https://storage.example/r''\<rparr>"
           "export_task\<lparr>task_result := Some \<lparr>files = Some
              [\<lparr>rf_filename = None, rf_url = Some ''https://storage.example/r''\<rparr>]\<rparr>\<rparr>"
           "\<lparr>files = Some [\<lparr>rf_filename = None, rf_url = Some ''https://storage.example/r''\<rparr>]\<rparr>"
           "\<lparr>rf_filename = None, rf_url = Some ''https://storage.example/r''\<rparr>"
           "[]" "''txt''"]
    by (simp add: good_world_def job_with_export_def finished_job_def export_task_def
          import_task_def report_upload_def path_parse_name_def path_basename_def)
  show "fst (performCloudConversion
            (good_world\<lparr>cc_jobs_wait := (\<lambda>j. Inr (job_with_export
               \<lparr>rf_filename = Some ''out.pdf'', rf_url = None\<rparr>))\<rparr>)
            report_upload ''pdf'' empty_sys) =
     Inl (new_Error
       ''CloudConvert processing failed: CloudConvert export task result did not contain a URL.'')"
    using converted_file_name [OF submit_sample,
        of "\<lambda>j. Inr (job_with_export \<lparr>rf_filename = Some ''out.pdf'', rf_url = None\<rparr>)"
           "job_with_export \<lparr>rf_filename = Some ''out.pdf'', rf_url = None\<rparr>"
           "export_task\<lparr>task_result := Some \<lparr>files = Some
              [\<lparr>rf_filename = Some ''out.pdf'', rf_url = None\<rparr>]\<rparr>\<rparr>"
           "\<lparr>files = Some [\<lparr>rf_filename = Some ''out.pdf'', rf_url = None\<rparr>]\<rparr>"
           "\<lparr>rf_filename = Some ''out.pdf'', rf_url = None\<rparr>"
           "[]" "''pdf''"]
    by (simp add: job_with_export_def finished_job_def export_task_def import_task_def)
qed

subsection \<open>Where an upload is written\<close>

text \<open>
  Claim C9: the uploaded blob is written at a path that never escapes the request's
  workspace, even when its name has directory-traversal components. The route joins the
  workspace path and the name as it came: for the name \<open>../evil.mp4\<close> the blob is
  written to \<open>/tmp/evil.mp4\<close>, outside the workspace
  \<open>/tmp/transcribe-session-Ab12Cd\<close>, and it is still there after the workspace has
  been removed.
\<close>

theorem traversal_name_escapes_workspace:
  "snd (transcribe_POST good_world
          (Inr \<lparr>form_operationType = Some ''file'',
                form_video = Some \<lparr>file_name = ''../evil.mp4'', file_bytes = [0, 0, 0, 24]\<rparr>,
                form_videoUrl = None\<rparr>) empty_sys) =
     \<lparr>fs_paths = [''/tmp/evil.mp4''],
      trace = [Mkdtemp ''/tmp/transcribe-session-Ab12Cd'',
               WriteFile ''/tmp/evil.mp4'',
               Ffmpeg ''/tmp/evil.mp4''
                 ''/tmp/transcribe-session-Ab12Cd/evil_1700000000000_k3x9qa_audio.mp3'',
               Access ''/tmp/transcribe-session-Ab12Cd/evil_1700000000000_k3x9qa_audio.mp3'',
               WhisperCreate ''/tmp/transcribe-session-Ab12Cd/evil_1700000000000_k3x9qa_audio.mp3'',
               Rm ''/tmp/transcribe-session-Ab12Cd'']\<rparr>
   \<and> \<not> inside_dir ''/tmp/transcribe-session-Ab12Cd'' ''/tmp/evil.mp4''"
  by (simp add: transcribe_defs io_defs fs_defs path_defs sample_defs Let_def)

subsection \<open>A missing input file name\<close>

text \<open>
  Claim C10: a request with the \<open>document\<close> file but without \<open>inputFileName\<close> is
  answered 400 with the message \<open>No document file provided.\<close> and the provider is
  never contacted. As the code has it: that is the answer when the server's API key is
  configured; when it is not, the answer is 500; in both cases no call at all is made.
\<close>

theorem missing_inputFileName:
  assumes "form_document f = Some d" and "form_inputFileName f = None"
  shows "convert_POST w (Inr f) s =
           (Inr (if truthy_str (env_CLOUDCONVERT_API_KEY w)
                 then json_response 400 (JObj [(''error'', JStr ''No document file provided.'')])
                 else json_response 500 (JObj
                        [(''error'', JStr ''Server configuration error for conversion service.'')])),
            s)"
  using assms by (simp add: convert_POST_def convert_try_def io_defs)

theorem missing_inputFileName_witness:
  "convert_POST good_world
     (Inr \<lparr>form_document = Some report_upload, form_targetFormat = Some ''pdf'',
           form_inputFileName = None\<rparr>) empty_sys =
     (Inr (json_response 400 (JObj [(''error'', JStr ''No document file provided.'')])), empty_sys)"
  using missing_inputFileName
    [of "\<lparr>form_document = Some report_upload, form_targetFormat = Some ''pdf'',
           form_inputFileName = None\<rparr>" report_upload good_world empty_sys]
  by (simp add: good_world_def)

text \<open>Without the API key the same request is answered 500.\<close>

theorem missing_inputFileName_counterexample:
  "status_of (convert_POST (good_world\<lparr>env_CLOUDCONVERT_API_KEY := None\<rparr>)
     (Inr \<lparr>form_document = Some report_upload, form_targetFormat = Some ''pdf'',
           form_inputFileName = None\<rparr>) empty_sys) = Some 500
   \<and> status_of (convert_POST (good_world\<lparr>env_CLOUDCONVERT_API_KEY := None\<rparr>)
     (Inr \<lparr>form_document = Some report_upload, form_targetFormat = Some ''pdf'',
           form_inputFileName = None\<rparr>) empty_sys) \<noteq> Some 400"
  by (simp add: status_of_def convert_POST_def json_response_def io_defs good_world_def)

end
